theory Spec2Isabelle
  imports Main
begin

section \<open>Record model (types.ts)\<close>

text \<open>
  The four string enums of \<^verbatim>\<open>types.ts\<close>. Every member is a non-empty string
  (\<^verbatim>\<open>'BATHROOM'\<close>, \<^verbatim>\<open>'PEE'\<close>, ...), hence truthy: \<^verbatim>\<open>x || d\<close> on an optional enum value
  is \<^verbatim>\<open>d\<close> exactly when \<^verbatim>\<open>x\<close> is undefined.
\<close>

datatype LogType = Bathroom | Meal

datatype BathroomActivity = Pee | Poop | Both

datatype MealSubtype = Given | Stolen

datatype PoopSubtype = Small | Normal | Huge | Sick

text \<open>
  A JavaScript \<^verbatim>\<open>Date\<close> holds a time value: an integral number of milliseconds since
  the epoch, or NaN (an Invalid Date). \<open>Some t\<close> is the time value \<open>t\<close>, \<open>None\<close> is NaN.
  The same convention is used for numbers handed to the setters of a \<^verbatim>\<open>Date\<close>.
\<close>

type_synonym JSDate = "int option"

text \<open>
  \<^verbatim>\<open>interface LogEntryData\<close>: every field but \<open>type\<close> is optional; \<open>None\<close> is an
  absent (undefined) field.
\<close>

record LogEntryData =
  type :: LogType
  activity :: "BathroomActivity option"
  poopSubtype :: "PoopSubtype option"
  "notes" :: "string option"
  timestamp :: "JSDate option"
  mealSubtype :: "MealSubtype option"
  foodType :: "string option"

text \<open>\<^verbatim>\<open>interface LogEntry extends LogEntryData\<close>: \<open>id\<close> and \<open>timestamp\<close> are mandatory.\<close>

record LogEntry =
  entry_id :: string
  entry_timestamp :: JSDate
  entry_type :: LogType
  entry_activity :: "BathroomActivity option"
  entry_poopSubtype :: "PoopSubtype option"
  entry_notes :: "string option"
  entry_mealSubtype :: "MealSubtype option"
  entry_foodType :: "string option"

section \<open>The time arithmetic of ECMAScript dates\<close>

text \<open>
  The abstract operations of the ECMAScript specification that the methods of \<^verbatim>\<open>Date\<close>
  used by the form are built from. The local time zone is a parameter \<open>tz\<close>: the offset
  of local time from UTC in minutes (positive east of Greenwich), taken as constant.
\<close>

definition msPerDay :: int where
  "msPerDay = 86400000"

definition msPerHour :: int where
  "msPerHour = 3600000"

definition msPerMinute :: int where
  "msPerMinute = 60000"

definition msPerSecond :: int where
  "msPerSecond = 1000"

definition Day :: "int \<Rightarrow> int" where
  "Day t = t div msPerDay"

definition HourFromTime :: "int \<Rightarrow> int" where
  "HourFromTime t = (t div msPerHour) mod 24"

definition MinFromTime :: "int \<Rightarrow> int" where
  "MinFromTime t = (t div msPerMinute) mod 60"

definition SecFromTime :: "int \<Rightarrow> int" where
  "SecFromTime t = (t div msPerSecond) mod 60"

definition msFromTime :: "int \<Rightarrow> int" where
  "msFromTime t = t mod msPerSecond"

definition MakeTime :: "int \<Rightarrow> int \<Rightarrow> int \<Rightarrow> int \<Rightarrow> int" where
  "MakeTime h m s milli = h * msPerHour + m * msPerMinute + s * msPerSecond + milli"

definition MakeDate :: "int \<Rightarrow> int \<Rightarrow> int" where
  "MakeDate day time = day * msPerDay + time"

definition TimeClip :: "int \<Rightarrow> JSDate" where
  "TimeClip t = (if \<bar>t\<bar> > 8640000000000000 then None else Some t)"

definition LocalTime :: "int \<Rightarrow> int \<Rightarrow> int" where
  "LocalTime tz t = t + tz * msPerMinute"

definition UTC :: "int \<Rightarrow> int \<Rightarrow> int" where
  "UTC tz t = t - tz * msPerMinute"

text \<open>
  The number of days from the epoch to the first day of a year, and from there to a day
  of a month (months counted from 1), as in the specification's \<^verbatim>\<open>DayFromYear\<close> and
  \<^verbatim>\<open>MakeDay\<close>.
\<close>

definition DayFromYear :: "int \<Rightarrow> int" where
  "DayFromYear y =
     365 * (y - 1970) + (y - 1969) div 4 - (y - 1901) div 100 + (y - 1601) div 400"

definition InLeapYear :: "int \<Rightarrow> bool" where
  "InLeapYear y = (y mod 4 = 0 \<and> (y mod 100 \<noteq> 0 \<or> y mod 400 = 0))"

definition DaysInMonth :: "int \<Rightarrow> int \<Rightarrow> int" where
  "DaysInMonth y m =
     (if m = 2 then (if InLeapYear y then 29 else 28)
      else if m = 4 \<or> m = 6 \<or> m = 9 \<or> m = 11 then 30 else 31)"

fun DaysBeforeMonth :: "int \<Rightarrow> nat \<Rightarrow> int" where
  "DaysBeforeMonth y 0 = 0"
| "DaysBeforeMonth y (Suc k) = DaysBeforeMonth y k + DaysInMonth y (int (Suc k))"

definition MakeDay :: "int \<Rightarrow> int \<Rightarrow> int \<Rightarrow> int" where
  "MakeDay y m d = DayFromYear y + DaysBeforeMonth y (nat (m - 1)) + d - 1"

text \<open>
  The inverse of \<open>MakeDay\<close>: year, month (from 1) and day of the month of a day number
  (\<^verbatim>\<open>YearFromTime\<close>, \<^verbatim>\<open>MonthFromTime\<close>, \<^verbatim>\<open>DateFromTime\<close>), computed in
  400-year eras of 146097 days with the year starting in March.
\<close>

definition CivilFromDay :: "int \<Rightarrow> int \<times> int \<times> int" where
  "CivilFromDay z =
     (let z' = z + 719468;
          era = z' div 146097;
          doe = z' - era * 146097;
          yoe = (doe - doe div 1460 + doe div 36524 - doe div 146096) div 365;
          doy = doe - (365 * yoe + yoe div 4 - yoe div 100);
          mp = (5 * doy + 2) div 153;
          d = doy - (153 * mp + 2) div 5 + 1;
          m = (if mp < 10 then mp + 3 else mp - 9);
          y = yoe + era * 400
      in (if m \<le> 2 then y + 1 else y, m, d))"

section \<open>Strings\<close>

text \<open>
  A JavaScript string is a sequence of code units; \<open>string\<close> models the code units
  U+0000 to U+00FF. \<open>isWhiteSpace\<close> is the set \<^verbatim>\<open>WhiteSpace\<close> \<open>\<union>\<close> \<^verbatim>\<open>LineTerminator\<close> that
  \<^verbatim>\<open>String.prototype.trim\<close> strips, restricted to that range: TAB, LF, VT, FF, CR, SP
  and NBSP.
\<close>

definition isWhiteSpace :: "char \<Rightarrow> bool" where
  "isWhiteSpace c = (c \<in> set [CHR 0x09, CHR 0x0A, CHR 0x0B, CHR 0x0C, CHR 0x0D, CHR 0x20, CHR 0xA0])"

definition trim :: "string \<Rightarrow> string" where
  "trim s = rev (dropWhile isWhiteSpace (rev (dropWhile isWhiteSpace s)))"

text \<open>\<^verbatim>\<open>s.split(c)\<close> for a separator of one code unit: never the empty list.\<close>

fun js_split :: "char \<Rightarrow> string \<Rightarrow> string list" where
  "js_split c [] = [[]]"
| "js_split c (x # xs) =
     (if x = c then [] # js_split c xs
      else (case js_split c xs of w # ws \<Rightarrow> (x # w) # ws | [] \<Rightarrow> [[x]]))"

definition isDigit :: "char \<Rightarrow> bool" where
  "isDigit c = (c \<in> set ''0123456789'')"

definition digitVal :: "char \<Rightarrow> int" where
  "digitVal c = int (of_char c) - 48"

definition decimalVal :: "string \<Rightarrow> int" where
  "decimalVal s = foldl (\<lambda>a c. 10 * a + digitVal c) 0 s"

text \<open>
  \<^verbatim>\<open>Number(s)\<close> on a string: white space is stripped, the empty string is 0, a run of
  decimal digits is its value. Every other string is NaN here; signs, fractions,
  exponents, radix prefixes and \<^verbatim>\<open>Infinity\<close> are not modelled (a time input emits
  \<^verbatim>\<open>HH:MM\<close> only).
\<close>

definition Number :: "string \<Rightarrow> int option" where
  "Number s =
     (let t = trim s in
      if t = [] then Some 0
      else if list_all isDigit t then Some (decimalVal t)
      else None)"

text \<open>\<^verbatim>\<open>n.toString()\<close> for a non-negative integer, and \<^verbatim>\<open>s.padStart(k, c)\<close>.\<close>

fun toString :: "nat \<Rightarrow> string" where
  "toString n =
     (if n < 10 then [''0123456789'' ! n]
      else toString (n div 10) @ [''0123456789'' ! (n mod 10)])"

declare toString.simps [simp del]

definition padStart :: "nat \<Rightarrow> char \<Rightarrow> string \<Rightarrow> string" where
  "padStart k c s = replicate (k - length s) c @ s"

section \<open>The methods of Date used by the form\<close>

text \<open>
  \<^verbatim>\<open>new Date(s)\<close> for a string in the date-only form \<^verbatim>\<open>YYYY-MM-DD\<close> of the
  ECMAScript date-time string format, which is what a date input emits: midnight UTC
  of that day. A string that is not a valid calendar date in this form gives an
  Invalid Date here (the specification leaves other strings to the implementation).
\<close>

definition parseDate :: "string \<Rightarrow> JSDate" where
  "parseDate s =
     (case js_split CHR ''-'' s of
        [ys, ms, ds] \<Rightarrow>
          if length ys = 4 \<and> length ms = 2 \<and> length ds = 2
             \<and> list_all isDigit ys \<and> list_all isDigit ms \<and> list_all isDigit ds
          then (let y = decimalVal ys; m = decimalVal ms; d = decimalVal ds in
                if 1 \<le> m \<and> m \<le> 12 \<and> 1 \<le> d \<and> d \<le> DaysInMonth y m
                then TimeClip (MakeDate (MakeDay y m d) 0)
                else None)
          else None
      | _ \<Rightarrow> None)"

text \<open>
  The setters work on local time and write back UTC; a NaN time value or a NaN
  argument gives NaN.
\<close>

definition setHours :: "int \<Rightarrow> int option \<Rightarrow> JSDate \<Rightarrow> JSDate" where
  "setHours tz hour d =
     (case (d, hour) of
        (Some u, Some h) \<Rightarrow>
          (let t = LocalTime tz u in
           TimeClip (UTC tz (MakeDate (Day t)
             (MakeTime h (MinFromTime t) (SecFromTime t) (msFromTime t)))))
      | _ \<Rightarrow> None)"

definition setMinutes :: "int \<Rightarrow> int option \<Rightarrow> JSDate \<Rightarrow> JSDate" where
  "setMinutes tz minute d =
     (case (d, minute) of
        (Some u, Some m) \<Rightarrow>
          (let t = LocalTime tz u in
           TimeClip (UTC tz (MakeDate (Day t)
             (MakeTime (HourFromTime t) m (SecFromTime t) (msFromTime t)))))
      | _ \<Rightarrow> None)"

definition setSeconds :: "int \<Rightarrow> int option \<Rightarrow> JSDate \<Rightarrow> JSDate" where
  "setSeconds tz sec d =
     (case (d, sec) of
        (Some u, Some s) \<Rightarrow>
          (let t = LocalTime tz u in
           TimeClip (UTC tz (MakeDate (Day t)
             (MakeTime (HourFromTime t) (MinFromTime t) s (msFromTime t)))))
      | _ \<Rightarrow> None)"

definition setMilliseconds :: "int \<Rightarrow> int option \<Rightarrow> JSDate \<Rightarrow> JSDate" where
  "setMilliseconds tz ms d =
     (case (d, ms) of
        (Some u, Some milli) \<Rightarrow>
          (let t = LocalTime tz u in
           TimeClip (UTC tz (MakeDate (Day t)
             (MakeTime (HourFromTime t) (MinFromTime t) (SecFromTime t) milli))))
      | _ \<Rightarrow> None)"

definition getHours :: "int \<Rightarrow> JSDate \<Rightarrow> int option" where
  "getHours tz d = map_option (\<lambda>u. HourFromTime (LocalTime tz u)) d"

definition getMinutes :: "int \<Rightarrow> JSDate \<Rightarrow> int option" where
  "getMinutes tz d = map_option (\<lambda>u. MinFromTime (LocalTime tz u)) d"

definition getSeconds :: "int \<Rightarrow> JSDate \<Rightarrow> int option" where
  "getSeconds tz d = map_option (\<lambda>u. SecFromTime (LocalTime tz u)) d"

definition getMilliseconds :: "int \<Rightarrow> JSDate \<Rightarrow> int option" where
  "getMilliseconds tz d = map_option (\<lambda>u. msFromTime (LocalTime tz u)) d"

text \<open>
  \<^verbatim>\<open>new Date(y, m, d, h, min, s, ms)\<close> with the month counted from 1: the instant that
  reads as these fields in local time.
\<close>

definition localDate :: "int \<Rightarrow> int \<Rightarrow> int \<Rightarrow> int \<Rightarrow> int \<Rightarrow> int \<Rightarrow> int \<Rightarrow> int \<Rightarrow> JSDate" where
  "localDate tz y m d h mi s milli =
     TimeClip (UTC tz (MakeDate (MakeDay y m d) (MakeTime h mi s milli)))"

text \<open>
  \<^verbatim>\<open>d.toISOString()\<close>: the UTC fields as \<^verbatim>\<open>YYYY-MM-DDTHH:mm:ss.sssZ\<close>, the year in six
  signed digits outside 0..9999; a RangeError on an Invalid Date.
\<close>

datatype error = RangeError

definition isoYear :: "int \<Rightarrow> string" where
  "isoYear y =
     (if 0 \<le> y \<and> y \<le> 9999 then padStart 4 CHR ''0'' (toString (nat y))
      else (if y < 0 then ''-'' else ''+'') @ padStart 6 CHR ''0'' (toString (nat \<bar>y\<bar>)))"

definition toISOString :: "JSDate \<Rightarrow> error + string" where
  "toISOString d =
     (case d of
        None \<Rightarrow> Inl RangeError
      | Some t \<Rightarrow>
          (case CivilFromDay (Day t) of (y, m, dd) \<Rightarrow>
             Inr (isoYear y @ ''-'' @ padStart 2 CHR ''0'' (toString (nat m))
                  @ ''-'' @ padStart 2 CHR ''0'' (toString (nat dd))
                  @ ''T'' @ padStart 2 CHR ''0'' (toString (nat (HourFromTime t)))
                  @ '':'' @ padStart 2 CHR ''0'' (toString (nat (MinFromTime t)))
                  @ '':'' @ padStart 2 CHR ''0'' (toString (nat (SecFromTime t)))
                  @ ''.'' @ padStart 3 CHR ''0'' (toString (nat (msFromTime t)))
                  @ ''Z'')))"

section \<open>The entry form (LogEntryForm)\<close>

text \<open>
  The eight state variables of the component. \<open>st_poopSubtype\<close>, \<open>st_mealSubtype\<close> and
  \<open>st_foodType\<close> are the state variables \<^verbatim>\<open>poopSubtype\<close>, \<^verbatim>\<open>mealSubtype\<close> and
  \<^verbatim>\<open>foodType\<close>, renamed apart from the payload's fields.
\<close>

record FormState =
  entryType :: LogType
  bathroomActivity :: BathroomActivity
  st_poopSubtype :: PoopSubtype
  mealNotes :: string
  editDate :: string
  editTime :: string
  st_mealSubtype :: MealSubtype
  st_foodType :: string

text \<open>The initial values given to \<^verbatim>\<open>useState\<close>.\<close>

definition initialState :: FormState where
  "initialState =
     \<lparr>entryType = Bathroom, bathroomActivity = Pee, st_poopSubtype = Normal,
      mealNotes = [], editDate = [], editTime = [],
      st_mealSubtype = Given, st_foodType = ''Kibble''\<rparr>"

definition formatDateForInput :: "JSDate \<Rightarrow> error + string" where
  "formatDateForInput date =
     (case toISOString date of
        Inl e \<Rightarrow> Inl e
      | Inr str \<Rightarrow> Inr (hd (js_split CHR ''T'' str)))"

text \<open>
  \<^verbatim>\<open>getHours()\<close> and \<^verbatim>\<open>getMinutes()\<close> of a valid date are integers in 0..23 and 0..59;
  of an Invalid Date they are NaN, printed \<^verbatim>\<open>NaN\<close>.
\<close>

definition numberToString :: "int option \<Rightarrow> string" where
  "numberToString n = (case n of None \<Rightarrow> ''NaN'' | Some k \<Rightarrow> toString (nat k))"

definition formatTimeForInput :: "int \<Rightarrow> JSDate \<Rightarrow> string" where
  "formatTimeForInput tz date =
     (let hours = padStart 2 CHR ''0'' (numberToString (getHours tz date));
          minutes = padStart 2 CHR ''0'' (numberToString (getMinutes tz date))
      in hours @ '':'' @ minutes)"

text \<open>
  \<^verbatim>\<open>x || d\<close> on an optional enum value, and on an optional string, where the empty
  string is falsy too.
\<close>

definition orDefault :: "'a option \<Rightarrow> 'a \<Rightarrow> 'a" where
  "orDefault x d = (case x of None \<Rightarrow> d | Some v \<Rightarrow> v)"

definition orDefaultStr :: "string option \<Rightarrow> string \<Rightarrow> string" where
  "orDefaultStr x d = (case x of None \<Rightarrow> d | Some v \<Rightarrow> if v = [] then d else v)"

text \<open>
  The effect run whenever \<^verbatim>\<open>editingEntry\<close> changes. It assigns the state variables in
  the order of the source; \<^verbatim>\<open>toISOString\<close> throws on an entry with an Invalid Date.
\<close>

definition useEffect :: "int \<Rightarrow> LogEntry option \<Rightarrow> FormState \<Rightarrow> error + FormState" where
  "useEffect tz editingEntry s =
     (case editingEntry of
        Some e \<Rightarrow>
          (let s1 = s\<lparr>entryType := entry_type e\<rparr>;
               s2 = (case entry_type e of
                       Bathroom \<Rightarrow>
                         s1\<lparr>bathroomActivity := orDefault (entry_activity e) Pee,
                            st_poopSubtype := orDefault (entry_poopSubtype e) Normal,
                            mealNotes := [],
                            st_mealSubtype := Given,
                            st_foodType := ''Kibble''\<rparr>
                     | Meal \<Rightarrow>
                         s1\<lparr>mealNotes := orDefaultStr (entry_notes e) [],
                            st_mealSubtype := orDefault (entry_mealSubtype e) Given,
                            st_foodType := orDefaultStr (entry_foodType e) ''Kibble'',
                            bathroomActivity := Pee,
                            st_poopSubtype := Normal\<rparr>)
           in case formatDateForInput (entry_timestamp e) of
                Inl err \<Rightarrow> Inl err
              | Inr date \<Rightarrow>
                  Inr (s2\<lparr>editDate := date,
                          editTime := formatTimeForInput tz (entry_timestamp e)\<rparr>))
      | None \<Rightarrow>
          Inr (s\<lparr>entryType := Bathroom,
                 bathroomActivity := Pee,
                 st_poopSubtype := Normal,
                 mealNotes := [],
                 editDate := [],
                 editTime := [],
                 st_mealSubtype := Given,
                 st_foodType := ''Kibble''\<rparr>))"

definition handleEntryTypeChange :: "LogType \<Rightarrow> FormState \<Rightarrow> FormState" where
  "handleEntryTypeChange newType s =
     (let s1 = s\<lparr>entryType := newType\<rparr> in
      if newType = Bathroom
      then s1\<lparr>mealNotes := [],
              st_mealSubtype := Given,
              st_foodType := ''Kibble'',
              st_poopSubtype := Normal\<rparr>
      else s1\<lparr>bathroomActivity := Pee,
              st_poopSubtype := Normal\<rparr>)"

definition handleBathroomActivityChange :: "BathroomActivity \<Rightarrow> FormState \<Rightarrow> FormState" where
  "handleBathroomActivityChange newActivity s =
     (let s1 = s\<lparr>bathroomActivity := newActivity\<rparr> in
      if newActivity = Pee then s1\<lparr>st_poopSubtype := Normal\<rparr> else s1)"

text \<open>
  The timestamp built by \<^verbatim>\<open>handleSubmit\<close> when an entry is edited: a missing element of
  the destructured array is undefined, which a setter reads as NaN.
\<close>

definition submitTimestamp :: "int \<Rightarrow> LogEntry \<Rightarrow> FormState \<Rightarrow> JSDate" where
  "submitTimestamp tz e s =
     (let parts = map Number (js_split CHR '':'' (editTime s));
          hours = (case parts of h # _ \<Rightarrow> h | [] \<Rightarrow> None);
          minutes = (case parts of _ # m # _ \<Rightarrow> m | _ \<Rightarrow> None);
          t0 = parseDate (editDate s);
          t1 = setHours tz hours t0;
          t2 = setMinutes tz minutes t1;
          t3 = setSeconds tz (getSeconds tz (entry_timestamp e)) t2;
          t4 = setMilliseconds tz (getMilliseconds tz (entry_timestamp e)) t3
      in t4)"

text \<open>
  \<^verbatim>\<open>handleSubmit\<close>: the payload and the id handed to \<^verbatim>\<open>onSaveEntry\<close>. A non-empty
  string is truthy, and so is every entry object.
\<close>

definition handleSubmit ::
  "int \<Rightarrow> LogEntry option \<Rightarrow> FormState \<Rightarrow> LogEntryData \<times> string option" where
  "handleSubmit tz editingEntry s =
     (let d0 = \<lparr>type = entryType s, activity = None, poopSubtype = None, notes = None,
                timestamp = None, mealSubtype = None, foodType = None\<rparr>;
          d1 = (case entryType s of
                  Bathroom \<Rightarrow>
                    (let b = d0\<lparr>activity := Some (bathroomActivity s)\<rparr> in
                     if bathroomActivity s = Poop \<or> bathroomActivity s = Both
                     then b\<lparr>poopSubtype := Some (st_poopSubtype s)\<rparr>
                     else b)
                | Meal \<Rightarrow>
                    d0\<lparr>mealSubtype := Some (st_mealSubtype s),
                       foodType := Some (if trim (st_foodType s) = [] then ''Kibble''
                                         else trim (st_foodType s)),
                       notes := Some (trim (mealNotes s))\<rparr>);
          d2 = (case editingEntry of
                  Some e \<Rightarrow>
                    if editDate s \<noteq> [] \<and> editTime s \<noteq> []
                    then d1\<lparr>timestamp := Some (submitTimestamp tz e s)\<rparr>
                    else d1
                | None \<Rightarrow> d1)
      in (d2, map_option entry_id editingEntry))"

text \<open>
  The events a user can raise between two runs of the effect: the two handlers above
  and the plain setters bound to the inputs.
\<close>

datatype Event =
    SetType LogType
  | SetBathroomActivity BathroomActivity
  | SetPoopSubtype PoopSubtype
  | SetMealSubtype MealSubtype
  | SetFoodType string
  | SetMealNotes string
  | SetEditDate string
  | SetEditTime string

fun step :: "FormState \<Rightarrow> Event \<Rightarrow> FormState" where
  "step s (SetType t) = handleEntryTypeChange t s"
| "step s (SetBathroomActivity a) = handleBathroomActivityChange a s"
| "step s (SetPoopSubtype p) = s\<lparr>st_poopSubtype := p\<rparr>"
| "step s (SetMealSubtype m) = s\<lparr>st_mealSubtype := m\<rparr>"
| "step s (SetFoodType f) = s\<lparr>st_foodType := f\<rparr>"
| "step s (SetMealNotes n) = s\<lparr>mealNotes := n\<rparr>"
| "step s (SetEditDate d) = s\<lparr>editDate := d\<rparr>"
| "step s (SetEditTime t) = s\<lparr>editTime := t\<rparr>"

definition run :: "FormState \<Rightarrow> Event list \<Rightarrow> FormState" where
  "run s evs = foldl step s evs"

text \<open>The selector of an event that writes the poop subtype directly.\<close>

fun isSetPoopSubtype :: "Event \<Rightarrow> bool" where
  "isSetPoopSubtype (SetPoopSubtype p) = True"
| "isSetPoopSubtype _ = False"

section \<open>The coordinator (App)\<close>

text \<open>
  The document handed to the store. Its \<open>timestamp\<close> is a store timestamp made from a
  date (\<^verbatim>\<open>Timestamp.fromDate\<close>) or the sentinel \<^verbatim>\<open>serverTimestamp()\<close>; an absent field
  is \<open>None\<close>.
\<close>

datatype TimestampField = FromDate JSDate | ServerTimestamp

record Document =
  doc_type :: LogType
  doc_activity :: "BathroomActivity option"
  doc_poopSubtype :: "PoopSubtype option"
  doc_notes :: "string option"
  doc_timestamp :: "TimestampField option"
  doc_mealSubtype :: "MealSubtype option"
  doc_foodType :: "string option"

datatype BackendCall = AddDoc Document | UpdateDoc string Document

text \<open>
  \<^verbatim>\<open>idToUpdate\<close> is an optional string, tested for truthiness: undefined and the empty
  string both mean a new entry.
\<close>

definition truthy :: "string option \<Rightarrow> bool" where
  "truthy x = (case x of None \<Rightarrow> False | Some v \<Rightarrow> v \<noteq> [])"

text \<open>
  \<^verbatim>\<open>dataToSave\<close> as prepared before the branch on \<^verbatim>\<open>idToUpdate\<close>: the spread of the
  payload, the timestamp converted or defaulted, undefined fields deleted (an absent
  and an undefined field are both \<open>None\<close>).
\<close>

definition dataToSave :: "LogEntryData \<Rightarrow> string option \<Rightarrow> Document" where
  "dataToSave entryData idToUpdate =
     \<lparr>doc_type = type entryData,
      doc_activity = activity entryData,
      doc_poopSubtype = poopSubtype entryData,
      doc_notes = notes entryData,
      doc_timestamp =
        (case timestamp entryData of
           Some d \<Rightarrow> Some (FromDate d)
         | None \<Rightarrow> if \<not> truthy idToUpdate then Some ServerTimestamp else None),
      doc_mealSubtype = mealSubtype entryData,
      doc_foodType = foodType entryData\<rparr>"

text \<open>The call \<^verbatim>\<open>saveLogEntry\<close> issues to the store.\<close>

definition saveLogEntry :: "LogEntryData \<Rightarrow> string option \<Rightarrow> BackendCall" where
  "saveLogEntry entryData idToUpdate =
     (let d = dataToSave entryData idToUpdate in
      case idToUpdate of
        Some i \<Rightarrow>
          if i \<noteq> []
          then UpdateDoc i (if timestamp entryData = None then d\<lparr>doc_timestamp := None\<rparr> else d)
          else AddDoc d
      | None \<Rightarrow> AddDoc d)"

text \<open>
  A stored document, and the store as a map from ids. The store resolves the sentinel
  to its own clock \<open>now\<close>.
\<close>

record StoredDocument =
  stored_type :: LogType
  stored_activity :: "BathroomActivity option"
  stored_poopSubtype :: "PoopSubtype option"
  stored_notes :: "string option"
  stored_timestamp :: "JSDate option"
  stored_mealSubtype :: "MealSubtype option"
  stored_foodType :: "string option"

definition resolveTimestamp :: "JSDate \<Rightarrow> TimestampField \<Rightarrow> JSDate" where
  "resolveTimestamp now f = (case f of FromDate d \<Rightarrow> d | ServerTimestamp \<Rightarrow> now)"

definition orElse :: "'a option \<Rightarrow> 'a option \<Rightarrow> 'a option" where
  "orElse new old = (case new of Some v \<Rightarrow> Some v | None \<Rightarrow> old)"

datatype BackendError = BackendError (message: "string option")

text \<open>
  Modelled from the spec: the store's \<^verbatim>\<open>update(id, partial document fields)\<close>, which is
  not part of the sources. The fields the document carries are written, unspecified
  fields are left unmodified, and an unknown id fails.
\<close>

definition updateDoc ::
  "JSDate \<Rightarrow> (string \<rightharpoonup> StoredDocument) \<Rightarrow> string \<Rightarrow> Document
     \<Rightarrow> BackendError + (string \<rightharpoonup> StoredDocument)" where
  "updateDoc now store i d =
     (case store i of
        None \<Rightarrow> Inl (BackendError (Some ''No document to update''))
      | Some old \<Rightarrow>
          Inr (store(i \<mapsto>
            \<lparr>stored_type = doc_type d,
             stored_activity = orElse (doc_activity d) (stored_activity old),
             stored_poopSubtype = orElse (doc_poopSubtype d) (stored_poopSubtype old),
             stored_notes = orElse (doc_notes d) (stored_notes old),
             stored_timestamp =
               orElse (map_option (resolveTimestamp now) (doc_timestamp d)) (stored_timestamp old),
             stored_mealSubtype = orElse (doc_mealSubtype d) (stored_mealSubtype old),
             stored_foodType = orElse (doc_foodType d) (stored_foodType old)\<rparr>)))"

text \<open>
  Modelled from the spec: the store's \<^verbatim>\<open>create(document)\<close>, which is not part of the
  sources; \<open>i\<close> is the id the store assigns.
\<close>

definition addDoc ::
  "JSDate \<Rightarrow> (string \<rightharpoonup> StoredDocument) \<Rightarrow> string \<Rightarrow> Document
     \<Rightarrow> (string \<rightharpoonup> StoredDocument)" where
  "addDoc now store i d =
     store(i \<mapsto>
       \<lparr>stored_type = doc_type d,
        stored_activity = doc_activity d,
        stored_poopSubtype = doc_poopSubtype d,
        stored_notes = doc_notes d,
        stored_timestamp = map_option (resolveTimestamp now) (doc_timestamp d),
        stored_mealSubtype = doc_mealSubtype d,
        stored_foodType = doc_foodType d\<rparr>)"

text \<open>
  The state of \<^verbatim>\<open>App\<close>, and \<^verbatim>\<open>handleDeleteEntry\<close> as one step given the outcome of
  the awaited \<^verbatim>\<open>deleteDoc\<close>: \<open>Inr ()\<close> when it resolves, \<open>Inl err\<close> when it throws.
\<close>

record AppState =
  logEntries :: "LogEntry list"
  editingEntry :: "LogEntry option"
  isLoading :: bool
  error :: "string option"

definition handleDeleteEntry :: "AppState \<Rightarrow> string \<Rightarrow> BackendError + unit \<Rightarrow> AppState" where
  "handleDeleteEntry st idToDelete outcome =
     (let st1 = st\<lparr>isLoading := True, error := None\<rparr>;
          st2 = (case outcome of
                   Inr _ \<Rightarrow>
                     (let st' = st1\<lparr>logEntries :=
                                  filter (\<lambda>entry. entry_id entry \<noteq> idToDelete) (logEntries st1)\<rparr>
                      in case editingEntry st of
                           Some e \<Rightarrow> if entry_id e = idToDelete
                                     then st'\<lparr>editingEntry := None\<rparr> else st'
                         | None \<Rightarrow> st')
                 | Inl err \<Rightarrow>
                     st1\<lparr>error := Some (''Failed to delete activity: '' @
                       orDefaultStr (message err) ''Ensure Firebase configuration is correct.'')\<rparr>)
      in st2\<lparr>isLoading := False\<rparr>)"


section \<open>Fixtures\<close>

text \<open>
  The entry edited in the form's test \<^verbatim>\<open>should call onSaveEntry with ID and new timestamp
  when editing an entry\<close>: its timestamp is \<^verbatim>\<open>new Date(2023, 0, 15, 10, 30, 25, 500)\<close>,
  that is 10:30:25.500 on 15 January 2023 in local time.
\<close>

definition editThisOne :: "int \<Rightarrow> LogEntry" where
  "editThisOne tz =
     \<lparr>entry_id = ''editThisOne'',
      entry_timestamp = localDate tz 2023 1 15 10 30 25 500,
      entry_type = Meal,
      entry_activity = None,
      entry_poopSubtype = None,
      entry_notes = Some ''Initial notes'',
      entry_mealSubtype = Some Given,
      entry_foodType = Some ''Old Food''\<rparr>"

text \<open>
  A general bathroom break, the shape the list shows as \<^verbatim>\<open>Bathroom Break\<close>: type
  Bathroom and no activity, logged at midnight UTC on 1 January 2023.
\<close>

definition generalBreak :: LogEntry where
  "generalBreak =
     \<lparr>entry_id = ''general1'',
      entry_timestamp = Some 1672531200000,
      entry_type = Bathroom,
      entry_activity = None,
      entry_poopSubtype = None,
      entry_notes = None,
      entry_mealSubtype = None,
      entry_foodType = None\<rparr>"


definition poopStored :: StoredDocument where
  "poopStored =
     \<lparr>stored_type = Bathroom,
      stored_activity = Some Poop,
      stored_poopSubtype = Some Normal,
      stored_notes = Some ''Afternoon poop'',
      stored_timestamp = Some (Some 1672576200000),
      stored_mealSubtype = None,
      stored_foodType = None\<rparr>"

definition peePayload :: LogEntryData where
  "peePayload =
     \<lparr>type = Bathroom, activity = Some Pee, poopSubtype = None, notes = None,
      timestamp = None, mealSubtype = None, foodType = None\<rparr>"


section \<open>What a submission carries\<close>

text \<open>Each field of the payload as a function of the form's state.\<close>

lemma handleSubmit_type: "type (fst (handleSubmit tz ed s)) = entryType s"
  by (simp add: handleSubmit_def Let_def split: LogType.splits option.splits)

lemma handleSubmit_activity:
  "activity (fst (handleSubmit tz ed s)) =
     (case entryType s of Bathroom \<Rightarrow> Some (bathroomActivity s) | Meal \<Rightarrow> None)"
  by (simp add: handleSubmit_def Let_def split: LogType.splits option.splits)

lemma handleSubmit_poopSubtype:
  "poopSubtype (fst (handleSubmit tz ed s)) =
     (case entryType s of
        Bathroom \<Rightarrow> if bathroomActivity s = Poop \<or> bathroomActivity s = Both
                    then Some (st_poopSubtype s) else None
      | Meal \<Rightarrow> None)"
  by (simp add: handleSubmit_def Let_def split: LogType.splits option.splits)

lemma handleSubmit_mealSubtype:
  "mealSubtype (fst (handleSubmit tz ed s)) =
     (case entryType s of Bathroom \<Rightarrow> None | Meal \<Rightarrow> Some (st_mealSubtype s))"
  by (simp add: handleSubmit_def Let_def split: LogType.splits option.splits)

lemma handleSubmit_foodType:
  "foodType (fst (handleSubmit tz ed s)) =
     (case entryType s of
        Bathroom \<Rightarrow> None
      | Meal \<Rightarrow> Some (if trim (st_foodType s) = [] then ''Kibble'' else trim (st_foodType s)))"
  by (simp add: handleSubmit_def Let_def split: LogType.splits option.splits)

lemma handleSubmit_notes:
  "notes (fst (handleSubmit tz ed s)) =
     (case entryType s of Bathroom \<Rightarrow> None | Meal \<Rightarrow> Some (trim (mealNotes s)))"
  by (simp add: handleSubmit_def Let_def split: LogType.splits option.splits)

lemma handleSubmit_timestamp:
  "timestamp (fst (handleSubmit tz ed s)) =
     (case ed of
        None \<Rightarrow> None
      | Some e \<Rightarrow> if editDate s \<noteq> [] \<and> editTime s \<noteq> []
                  then Some (submitTimestamp tz e s) else None)"
  by (simp add: handleSubmit_def Let_def split: LogType.splits option.splits)

lemma handleSubmit_id: "snd (handleSubmit tz ed s) = map_option entry_id ed"
  by (simp add: handleSubmit_def Let_def)

text \<open>Trimming leaves nothing exactly when the string is white space throughout.\<close>

lemma trim_Nil_iff: "trim s = [] \<longleftrightarrow> list_all isWhiteSpace s"
proof
  assume "trim s = []"
  then have all: "\<forall>x \<in> set (dropWhile isWhiteSpace s). isWhiteSpace x"
    by (simp add: trim_def)
  show "list_all isWhiteSpace s"
  proof (cases "dropWhile isWhiteSpace s")
    case Nil
    then show ?thesis by (simp add: list_all_iff)
  next
    case (Cons x xs)
    then have "\<not> isWhiteSpace (hd (dropWhile isWhiteSpace s))"
      using hd_dropWhile [of isWhiteSpace s] by simp
    with Cons all show ?thesis by simp
  qed
next
  assume "list_all isWhiteSpace s"
  then have "dropWhile isWhiteSpace s = []"
    by (simp add: list_all_iff)
  then show "trim s = []"
    by (simp only: trim_def rev.simps dropWhile.simps)
qed

text \<open>A trimmed string neither starts nor ends with white space.\<close>

lemma trim_no_leading: "trim s \<noteq> [] \<Longrightarrow> \<not> isWhiteSpace (hd (trim s))"
proof -
  assume ne: "trim s \<noteq> []"
  let ?a = "dropWhile isWhiteSpace s"
  let ?b = "dropWhile isWhiteSpace (rev ?a)"
  from ne have b: "?b \<noteq> []" by (simp add: trim_def)
  then have a: "?a \<noteq> []" by (metis dropWhile.simps(1) rev.simps(1))
  have "rev ?a = takeWhile isWhiteSpace (rev ?a) @ ?b" by simp
  then have "?a = rev ?b @ rev (takeWhile isWhiteSpace (rev ?a))"
    by (metis rev_append rev_rev_ident)
  with b have "hd ?a = hd (rev ?b)" by (metis hd_append2 rev_is_Nil_conv)
  moreover from a have "\<not> isWhiteSpace (hd ?a)" by (rule hd_dropWhile)
  ultimately show ?thesis by (simp add: trim_def)
qed

lemma trim_no_trailing: "trim s \<noteq> [] \<Longrightarrow> \<not> isWhiteSpace (last (trim s))"
proof -
  assume ne: "trim s \<noteq> []"
  let ?b = "dropWhile isWhiteSpace (rev (dropWhile isWhiteSpace s))"
  from ne have b: "?b \<noteq> []" by (simp add: trim_def)
  then have "\<not> isWhiteSpace (hd ?b)" by (rule hd_dropWhile)
  with b show ?thesis by (simp add: trim_def last_rev)
qed

lemma run_snoc: "run s (evs @ [ev]) = step (run s evs) ev"
  by (simp add: run_def)

lemma useEffect_new: "useEffect tz None s0 = Inr initialState"
  by (simp add: useEffect_def initialState_def)

text \<open>
  Only the poop-subtype radio buttons move the poop subtype away from \<open>Normal\<close>: both
  handlers either keep it or reset it.
\<close>

lemma poopSubtype_stays_Normal:
  "st_poopSubtype s = Normal \<Longrightarrow> \<not> list_ex isSetPoopSubtype evs
     \<Longrightarrow> st_poopSubtype (run s evs) = Normal"
proof (induction evs rule: rev_induct)
  case Nil
  then show ?case by (simp add: run_def)
next
  case (snoc ev evs)
  then have "st_poopSubtype (run s evs) = Normal" and "\<not> isSetPoopSubtype ev"
    by simp_all
  then show ?case
    by (cases ev)
      (simp_all add: run_snoc handleEntryTypeChange_def handleBathroomActivityChange_def Let_def)
qed

text \<open>
  Claim C2. Whatever state the form starts from and whatever events follow (type
  toggles included), a submission with type Meal carries neither \<open>activity\<close> nor
  \<open>poopSubtype\<close>, and a submission with type Bathroom carries neither \<open>mealSubtype\<close>
  nor \<open>foodType\<close>.
\<close>

theorem submit_drops_other_type_fields:
  "(entryType (run s evs) = Meal \<longrightarrow>
      activity (fst (handleSubmit tz ed (run s evs))) = None
      \<and> poopSubtype (fst (handleSubmit tz ed (run s evs))) = None)
   \<and> (entryType (run s evs) = Bathroom \<longrightarrow>
      mealSubtype (fst (handleSubmit tz ed (run s evs))) = None
      \<and> foodType (fst (handleSubmit tz ed (run s evs))) = None)"
  by (simp add: handleSubmit_activity handleSubmit_poopSubtype handleSubmit_mealSubtype
      handleSubmit_foodType)

theorem submit_drops_other_type_fields_witness:
  "entryType (run initialState
      [SetType Bathroom, SetBathroomActivity Both, SetPoopSubtype Huge, SetType Meal]) = Meal
   \<and> activity (fst (handleSubmit 0 None (run initialState
      [SetType Bathroom, SetBathroomActivity Both, SetPoopSubtype Huge, SetType Meal]))) = None
   \<and> poopSubtype (fst (handleSubmit 0 None (run initialState
      [SetType Bathroom, SetBathroomActivity Both, SetPoopSubtype Huge, SetType Meal]))) = None
   \<and> entryType (run initialState
      [SetType Meal, SetMealSubtype Stolen, SetFoodType ''Tuna'', SetType Bathroom]) = Bathroom
   \<and> mealSubtype (fst (handleSubmit 0 None (run initialState
      [SetType Meal, SetMealSubtype Stolen, SetFoodType ''Tuna'', SetType Bathroom]))) = None
   \<and> foodType (fst (handleSubmit 0 None (run initialState
      [SetType Meal, SetMealSubtype Stolen, SetFoodType ''Tuna'', SetType Bathroom]))) = None"
  using submit_drops_other_type_fields
      [of initialState
          "[SetType Bathroom, SetBathroomActivity Both, SetPoopSubtype Huge, SetType Meal]"
          0 None]
    submit_drops_other_type_fields
      [of initialState
          "[SetType Meal, SetMealSubtype Stolen, SetFoodType ''Tuna'', SetType Bathroom]"
          0 None]
  by (simp add: run_def initialState_def handleEntryTypeChange_def
      handleBathroomActivityChange_def)

text \<open>
  Claim C3. A Bathroom submission omits \<open>poopSubtype\<close> when the selected activity is
  Pee and carries the currently selected subtype when the activity is Poop or Both;
  in a new-entry form that subtype is \<open>Normal\<close> as long as the user has not picked
  another one.
\<close>

theorem bathroom_submit_poopSubtype:
  "(entryType s = Bathroom \<and> bathroomActivity s = Pee \<longrightarrow>
      poopSubtype (fst (handleSubmit tz ed s)) = None)
   \<and> (entryType s = Bathroom \<and> (bathroomActivity s = Poop \<or> bathroomActivity s = Both) \<longrightarrow>
      poopSubtype (fst (handleSubmit tz ed s)) = Some (st_poopSubtype s))
   \<and> (useEffect tz None s0 = Inr s' \<and> \<not> list_ex isSetPoopSubtype evs \<longrightarrow>
      st_poopSubtype (run s' evs) = Normal)"
proof -
  have "st_poopSubtype (run s' evs) = Normal"
    if "useEffect tz None s0 = Inr s'" "\<not> list_ex isSetPoopSubtype evs"
  proof -
    from that(1) have "s' = initialState" by (simp add: useEffect_new)
    then have "st_poopSubtype s' = Normal" by (simp add: initialState_def)
    with that(2) show ?thesis by (simp add: poopSubtype_stays_Normal)
  qed
  then show ?thesis
    by (simp add: handleSubmit_poopSubtype)
qed

theorem bathroom_submit_poopSubtype_witness:
  "entryType initialState = Bathroom \<and> bathroomActivity initialState = Pee
   \<and> poopSubtype (fst (handleSubmit 0 None initialState)) = None
   \<and> entryType (run initialState [SetBathroomActivity Poop]) = Bathroom
   \<and> bathroomActivity (run initialState [SetBathroomActivity Poop]) = Poop
   \<and> poopSubtype (fst (handleSubmit 0 None (run initialState [SetBathroomActivity Poop])))
       = Some Normal
   \<and> useEffect 0 None initialState = Inr initialState
   \<and> \<not> list_ex isSetPoopSubtype [SetBathroomActivity Poop]
   \<and> st_poopSubtype (run initialState [SetBathroomActivity Poop]) = Normal"
  using bathroom_submit_poopSubtype
      [where s = initialState and tz = 0 and ed = None and s0 = initialState
         and s' = initialState and evs = "[SetBathroomActivity Poop]"]
    bathroom_submit_poopSubtype
      [where s = "run initialState [SetBathroomActivity Poop]" and tz = 0 and ed = None
         and s0 = initialState and s' = initialState and evs = "[SetBathroomActivity Poop]"]
  by (simp add: run_def initialState_def handleBathroomActivityChange_def useEffect_def)

text \<open>
  Claim C4. A Meal submission always carries \<open>foodType\<close> and \<open>notes\<close>: \<open>foodType\<close> is
  the trimmed food-type text, or \<open>Kibble\<close> when nothing is left after trimming, which
  happens exactly for an empty or all-white-space text; \<open>notes\<close> is the trimmed notes
  text, the empty string included.
\<close>

theorem meal_submit_foodType_notes:
  "entryType s = Meal \<Longrightarrow>
     foodType (fst (handleSubmit tz ed s)) =
       Some (if list_all isWhiteSpace (st_foodType s) then ''Kibble'' else trim (st_foodType s))
     \<and> foodType (fst (handleSubmit tz ed s)) \<noteq> Some []
     \<and> notes (fst (handleSubmit tz ed s)) = Some (trim (mealNotes s))"
  by (simp add: handleSubmit_foodType handleSubmit_notes trim_Nil_iff)

theorem meal_submit_foodType_notes_witness:
  "entryType (run initialState [SetType Meal, SetFoodType '' '', SetMealNotes '' Morning meal ''])
     = Meal
   \<and> foodType (fst (handleSubmit 0 None
        (run initialState [SetType Meal, SetFoodType '' '', SetMealNotes '' Morning meal ''])))
     = Some ''Kibble''
   \<and> notes (fst (handleSubmit 0 None
        (run initialState [SetType Meal, SetFoodType '' '', SetMealNotes '' Morning meal ''])))
     = Some ''Morning meal''"
  using meal_submit_foodType_notes
      [of "run initialState [SetType Meal, SetFoodType '' '', SetMealNotes '' Morning meal '']"
          0 None]
  by (simp add: run_def initialState_def handleEntryTypeChange_def trim_def isWhiteSpace_def)

text \<open>
  Claim C5. The payload has a \<open>timestamp\<close> field exactly when an entry is being edited
  and the date string and the time string are both non-empty; the payload of a new
  entry has none.
\<close>

theorem submit_timestamp_present_iff:
  "(timestamp (fst (handleSubmit tz ed s)) \<noteq> None
      \<longleftrightarrow> ed \<noteq> None \<and> editDate s \<noteq> [] \<and> editTime s \<noteq> [])
   \<and> timestamp (fst (handleSubmit tz None s)) = None"
  by (simp add: handleSubmit_timestamp split: option.splits)

text \<open>
  Claim C9. Switching the type to Bathroom keeps the selected bathroom activity,
  whatever it was, and resets the notes, the meal subtype, the food type and the poop
  subtype to their defaults.
\<close>

theorem handleEntryTypeChange_Bathroom:
  "bathroomActivity (handleEntryTypeChange Bathroom s) = bathroomActivity s
   \<and> entryType (handleEntryTypeChange Bathroom s) = Bathroom
   \<and> mealNotes (handleEntryTypeChange Bathroom s) = []
   \<and> st_mealSubtype (handleEntryTypeChange Bathroom s) = Given
   \<and> st_foodType (handleEntryTypeChange Bathroom s) = ''Kibble''
   \<and> st_poopSubtype (handleEntryTypeChange Bathroom s) = Normal"
  by (simp add: handleEntryTypeChange_def)

text \<open>Loading the fixtures into a fresh form.\<close>

lemma useEffect_generalBreak:
  "useEffect 0 (Some generalBreak) initialState
     = Inr (initialState\<lparr>editDate := ''2023-01-01'', editTime := ''00:00''\<rparr>)"
proof -
  have date: "formatDateForInput (Some 1672531200000) = Inr ''2023-01-01''"
    by code_simp
  have time: "formatTimeForInput 0 (Some 1672531200000) = ''00:00''"
    by code_simp
  show ?thesis
    by (simp add: useEffect_def Let_def orDefault_def date time initialState_def
        generalBreak_def)
qed

text \<open>
  Claim C10. A Bathroom submission always carries \<open>activity\<close>, equal to the selected
  bathroom activity (\<open>Pee\<close> in a fresh new-entry form), so no submission is a Bathroom
  payload without activity; an entry stored as Bathroom without activity, loaded into
  the form and submitted unchanged, comes back with activity \<open>Pee\<close>.
\<close>

theorem bathroom_submit_activity_present:
  "(entryType s = Bathroom \<longrightarrow>
      activity (fst (handleSubmit tz ed s)) = Some (bathroomActivity s))
   \<and> \<not> (type (fst (handleSubmit tz ed s)) = Bathroom
         \<and> activity (fst (handleSubmit tz ed s)) = None)
   \<and> (useEffect tz None s0 = Inr s' \<longrightarrow> bathroomActivity s' = Pee)
   \<and> (entry_type e = Bathroom \<and> entry_activity e = None
       \<and> useEffect tz (Some e) s0 = Inr s' \<longrightarrow>
      type (fst (handleSubmit tz (Some e) s')) = Bathroom
      \<and> activity (fst (handleSubmit tz (Some e) s')) = Some Pee)"
proof -
  have edit: "entryType s' = Bathroom \<and> bathroomActivity s' = Pee"
    if "entry_type e = Bathroom" "entry_activity e = None"
      "useEffect tz (Some e) s0 = Inr s'"
    using that
    by (auto simp add: useEffect_def Let_def orDefault_def split: sum.splits)
  have new: "bathroomActivity s' = Pee" if "useEffect tz None s0 = Inr s'"
    using that by (auto simp add: useEffect_def)
  show ?thesis
    using edit new
    by (auto simp add: handleSubmit_activity handleSubmit_type split: LogType.splits)
qed

theorem bathroom_submit_activity_present_witness:
  "entryType initialState = Bathroom
   \<and> activity (fst (handleSubmit 0 None initialState)) = Some Pee
   \<and> useEffect 0 None initialState = Inr initialState
   \<and> bathroomActivity initialState = Pee
   \<and> entry_type generalBreak = Bathroom
   \<and> entry_activity generalBreak = None
   \<and> useEffect 0 (Some generalBreak) initialState
       = Inr (initialState\<lparr>editDate := ''2023-01-01'', editTime := ''00:00''\<rparr>)
   \<and> type (fst (handleSubmit 0 (Some generalBreak)
        (initialState\<lparr>editDate := ''2023-01-01'', editTime := ''00:00''\<rparr>))) = Bathroom
   \<and> activity (fst (handleSubmit 0 (Some generalBreak)
        (initialState\<lparr>editDate := ''2023-01-01'', editTime := ''00:00''\<rparr>))) = Some Pee"
proof -
  let ?s = "initialState\<lparr>editDate := ''2023-01-01'', editTime := ''00:00''\<rparr>"
  have eff: "useEffect 0 (Some generalBreak) initialState = Inr ?s"
    by (simp add: useEffect_generalBreak)
  have new: "useEffect 0 None initialState = Inr initialState"
    by (simp add: useEffect_new)
  show ?thesis
    using bathroom_submit_activity_present
        [where s = initialState and tz = 0 and ed = None and s0 = initialState
           and s' = initialState and e = generalBreak]
      bathroom_submit_activity_present
        [where s = initialState and tz = 0 and ed = None and s0 = initialState
           and s' = ?s and e = generalBreak]
      eff new
    by (simp add: initialState_def generalBreak_def)
qed

section \<open>The coordinator\<close>

text \<open>
  Claim C8. When the store reports an error for the delete, the list of entries and
  the entry being edited are as before, an error message is set, and the busy flag
  is cleared.
\<close>

theorem delete_failure_keeps_list:
  "logEntries (handleDeleteEntry st i (Inl err)) = logEntries st
   \<and> editingEntry (handleDeleteEntry st i (Inl err)) = editingEntry st
   \<and> error (handleDeleteEntry st i (Inl err)) =
       Some (''Failed to delete activity: '' @
             orDefaultStr (message err) ''Ensure Firebase configuration is correct.'')
   \<and> error (handleDeleteEntry st i (Inl err)) \<noteq> None
   \<and> isLoading (handleDeleteEntry st i (Inl err)) = False"
  by (simp add: handleDeleteEntry_def Let_def)

text \<open>
  Claim C6. Saving a new entry whose payload has no timestamp hands the store a
  document whose timestamp is the server-timestamp sentinel, which the store resolves
  to its own clock. Saving under an id with a payload without timestamp sends an
  update document with no timestamp field, and the update leaves the stored timestamp
  as it was; a payload timestamp is sent along and replaces the stored one.
\<close>

theorem save_timestamp_handling:
  "(\<not> truthy idToUpdate \<and> timestamp p = None \<longrightarrow>
      (\<exists>d. saveLogEntry p idToUpdate = AddDoc d \<and> doc_timestamp d = Some ServerTimestamp
           \<and> map_option stored_timestamp (addDoc now store j d j) = Some (Some now)))
   \<and> (i \<noteq> [] \<and> timestamp p = None \<and> store i = Some old \<longrightarrow>
      (\<exists>d store'. saveLogEntry p (Some i) = UpdateDoc i d \<and> doc_timestamp d = None
           \<and> updateDoc now store i d = Inr store'
           \<and> map_option stored_timestamp (store' i) = Some (stored_timestamp old)))
   \<and> (i \<noteq> [] \<and> timestamp p = Some t \<and> store i = Some old \<longrightarrow>
      (\<exists>d store'. saveLogEntry p (Some i) = UpdateDoc i d \<and> doc_timestamp d = Some (FromDate t)
           \<and> updateDoc now store i d = Inr store'
           \<and> map_option stored_timestamp (store' i) = Some (Some t)))"
  by (auto simp add: saveLogEntry_def dataToSave_def truthy_def Let_def addDoc_def
      updateDoc_def orElse_def resolveTimestamp_def split: option.splits)

theorem save_timestamp_handling_witness:
  "\<not> truthy None \<and> timestamp peePayload = None
   \<and> (\<exists>d. saveLogEntry peePayload None = AddDoc d \<and> doc_timestamp d = Some ServerTimestamp
        \<and> map_option stored_timestamp (addDoc (Some 1700000000000) [''2'' \<mapsto> poopStored] ''n1'' d ''n1'')
            = Some (Some (Some 1700000000000)))
   \<and> ''2'' \<noteq> [] \<and> [''2'' \<mapsto> poopStored] ''2'' = Some poopStored
   \<and> (\<exists>d store'. saveLogEntry peePayload (Some ''2'') = UpdateDoc ''2'' d
        \<and> doc_timestamp d = None
        \<and> updateDoc (Some 1700000000000) [''2'' \<mapsto> poopStored] ''2'' d = Inr store'
        \<and> map_option stored_timestamp (store' ''2'') = Some (Some (Some 1672576200000)))
   \<and> timestamp (peePayload\<lparr>timestamp := Some (Some 1672579800000)\<rparr>)
        = Some (Some 1672579800000)
   \<and> (\<exists>d store'.
        saveLogEntry (peePayload\<lparr>timestamp := Some (Some 1672579800000)\<rparr>) (Some ''2'')
          = UpdateDoc ''2'' d
        \<and> doc_timestamp d = Some (FromDate (Some 1672579800000))
        \<and> updateDoc (Some 1700000000000) [''2'' \<mapsto> poopStored] ''2'' d = Inr store'
        \<and> map_option stored_timestamp (store' ''2'') = Some (Some (Some 1672579800000)))"
  using save_timestamp_handling
      [where idToUpdate = None and p = peePayload and now = "Some 1700000000000"
         and store = "[''2'' \<mapsto> poopStored]" and j = "''n1''" and i = "''2''"
         and old = poopStored and t = "Some 1672579800000"]
    save_timestamp_handling
      [where idToUpdate = None and now = "Some 1700000000000"
         and p = "peePayload\<lparr>timestamp := Some (Some 1672579800000)\<rparr>"
         and store = "[''2'' \<mapsto> poopStored]" and j = "''n1''" and i = "''2''"
         and old = poopStored and t = "Some 1672579800000"]
  by (simp add: truthy_def peePayload_def poopStored_def)

section \<open>The timestamp of an edited entry\<close>

text \<open>
  A time value written as a day number and the four fields of the time within the day
  gives these back, as long as the fields are in range.
\<close>

lemma div_decomp: "0 \<le> r \<Longrightarrow> r < k \<Longrightarrow> (q * k + r) div k = (q::int)"
  by simp

lemma mod_decomp: "0 \<le> r \<Longrightarrow> r < k \<Longrightarrow> (q * k + r) mod k = (r::int)"
  by simp

lemma fields_of_MakeDate:
  assumes "0 \<le> h" "h < 24" "0 \<le> m" "m < 60" "0 \<le> s" "s < 60" "0 \<le> milli" "milli < 1000"
  shows "Day (MakeDate D (MakeTime h m s milli)) = D"
    and "HourFromTime (MakeDate D (MakeTime h m s milli)) = h"
    and "MinFromTime (MakeDate D (MakeTime h m s milli)) = m"
    and "SecFromTime (MakeDate D (MakeTime h m s milli)) = s"
    and "msFromTime (MakeDate D (MakeTime h m s milli)) = milli"
proof -
  let ?t = "MakeDate D (MakeTime h m s milli)"
  have d: "?t = D * 86400000 + (h * 3600000 + m * 60000 + s * 1000 + milli)"
    by (simp add: MakeDate_def MakeTime_def msPerDay_def msPerHour_def msPerMinute_def
        msPerSecond_def)
  have "0 \<le> h * 3600000 + m * 60000 + s * 1000 + milli"
      "h * 3600000 + m * 60000 + s * 1000 + milli < 86400000"
    using assms by linarith+
  then show "Day ?t = D"
    unfolding d Day_def msPerDay_def by (rule div_decomp)
  have hh: "?t = (D * 24 + h) * 3600000 + (m * 60000 + s * 1000 + milli)"
    unfolding d by (simp add: algebra_simps)
  have "0 \<le> m * 60000 + s * 1000 + milli" "m * 60000 + s * 1000 + milli < 3600000"
    using assms by linarith+
  then have "?t div 3600000 = D * 24 + h"
    unfolding hh by (rule div_decomp)
  then have "HourFromTime ?t = (D * 24 + h) mod 24"
    by (simp only: HourFromTime_def msPerHour_def)
  also have "\<dots> = h"
    using assms by (simp only: mod_decomp)
  finally show "HourFromTime ?t = h" .
  have mm: "?t = ((D * 24 + h) * 60 + m) * 60000 + (s * 1000 + milli)"
    unfolding d by (simp add: algebra_simps)
  have "0 \<le> s * 1000 + milli" "s * 1000 + milli < 60000"
    using assms by linarith+
  then have "?t div 60000 = (D * 24 + h) * 60 + m"
    unfolding mm by (rule div_decomp)
  then have "MinFromTime ?t = ((D * 24 + h) * 60 + m) mod 60"
    by (simp only: MinFromTime_def msPerMinute_def)
  also have "\<dots> = m"
    using assms by (simp only: mod_decomp)
  finally show "MinFromTime ?t = m" .
  have ss: "?t = (((D * 24 + h) * 60 + m) * 60 + s) * 1000 + milli"
    unfolding d by (simp add: algebra_simps)
  have "?t div 1000 = ((D * 24 + h) * 60 + m) * 60 + s"
    unfolding ss using assms by (simp only: div_decomp)
  then have "SecFromTime ?t = (((D * 24 + h) * 60 + m) * 60 + s) mod 60"
    by (simp only: SecFromTime_def msPerSecond_def)
  also have "\<dots> = s"
    using assms by (simp only: mod_decomp)
  finally show "SecFromTime ?t = s" .
  show "msFromTime ?t = milli"
    unfolding ss msFromTime_def msPerSecond_def using assms by (simp only: mod_decomp)
qed


lemma LocalTime_UTC: "LocalTime tz (UTC tz t) = t"
  by (simp add: LocalTime_def UTC_def)

lemma MakeTime_bounds:
  assumes "0 \<le> h" "h < 24" "0 \<le> m" "m < 60" "0 \<le> s" "s < 60" "0 \<le> milli" "milli < 1000"
  shows "0 \<le> MakeTime h m s milli" and "MakeTime h m s milli < 86400000"
  using assms
  by (simp_all add: MakeTime_def msPerHour_def msPerMinute_def msPerSecond_def)

lemma offset_days: "\<bar>tz\<bar> \<le> 1440 \<Longrightarrow> -1 \<le> tz div 1440 \<and> tz div 1440 \<le> (1::int)"
  using zdiv_mono1 [of tz 1440 1440] zdiv_mono1 [of "-1440" tz 1440]
  by simp

lemma local_in_range:
  assumes "\<bar>D\<bar> \<le> 10000000" "\<bar>tz\<bar> \<le> 1440"
    and "0 \<le> h" "h < 24" "0 \<le> m" "m < 60" "0 \<le> s" "s < 60" "0 \<le> milli" "milli < 1000"
  shows "TimeClip (UTC tz (MakeDate (D + tz div 1440) (MakeTime h m s milli)))
         = Some (UTC tz (MakeDate (D + tz div 1440) (MakeTime h m s milli)))"
proof -
  have q: "-1 \<le> tz div 1440" "tz div 1440 \<le> 1"
    using offset_days [OF assms(2)] by simp_all
  have t: "0 \<le> MakeTime h m s milli" "MakeTime h m s milli < 86400000"
    using assms by (simp_all add: MakeTime_bounds)
  have "\<bar>UTC tz (MakeDate (D + tz div 1440) (MakeTime h m s milli))\<bar> \<le> 8640000000000000"
    using q t assms(1,2)
    by (simp add: UTC_def MakeDate_def msPerDay_def msPerMinute_def abs_le_iff)
  then show ?thesis
    by (simp add: TimeClip_def)
qed

lemma offset_split:
  "(tz::int) = (tz div 1440) * 1440 + ((tz div 60) mod 24) * 60 + tz mod 60"
proof -
  define q where "q = tz div 60"
  define r where "r = tz mod 60"
  define x where "x = tz div 1440"
  define y where "y = q mod 24"
  have a: "tz = q * 60 + r"
    by (simp add: q_def r_def)
  have c: "x = q div 24"
    by (simp add: x_def q_def zdiv_zmult2_eq)
  have b: "q = x * 24 + y"
    unfolding c y_def by simp
  have "tz = x * 1440 + y * 60 + r"
    using a b by linarith
  then show ?thesis
    by (simp only: x_def y_def r_def q_def)
qed

lemma midnight_local:
  "LocalTime tz (D * msPerDay)
     = MakeDate (D + tz div 1440) (MakeTime ((tz div 60) mod 24) (tz mod 60) 0 0)"
proof -
  have "tz * 60000 = ((tz div 1440) * 1440 + ((tz div 60) mod 24) * 60 + tz mod 60) * 60000"
    using offset_split [of tz] by simp
  then show ?thesis
    by (simp add: LocalTime_def MakeDate_def MakeTime_def msPerDay_def msPerHour_def
        msPerMinute_def algebra_simps)
qed


lemma setHours_fields:
  assumes "LocalTime tz u = MakeDate D (MakeTime h0 m0 s0 ms0)"
    and "0 \<le> h0" "h0 < 24" "0 \<le> m0" "m0 < 60" "0 \<le> s0" "s0 < 60" "0 \<le> ms0" "ms0 < 1000"
  shows "setHours tz (Some h) (Some u) = TimeClip (UTC tz (MakeDate D (MakeTime h m0 s0 ms0)))"
  using assms by (simp add: setHours_def Let_def fields_of_MakeDate)

lemma setMinutes_fields:
  assumes "LocalTime tz u = MakeDate D (MakeTime h0 m0 s0 ms0)"
    and "0 \<le> h0" "h0 < 24" "0 \<le> m0" "m0 < 60" "0 \<le> s0" "s0 < 60" "0 \<le> ms0" "ms0 < 1000"
  shows "setMinutes tz (Some m) (Some u) = TimeClip (UTC tz (MakeDate D (MakeTime h0 m s0 ms0)))"
  using assms by (simp add: setMinutes_def Let_def fields_of_MakeDate)

lemma setSeconds_fields:
  assumes "LocalTime tz u = MakeDate D (MakeTime h0 m0 s0 ms0)"
    and "0 \<le> h0" "h0 < 24" "0 \<le> m0" "m0 < 60" "0 \<le> s0" "s0 < 60" "0 \<le> ms0" "ms0 < 1000"
  shows "setSeconds tz (Some s) (Some u) = TimeClip (UTC tz (MakeDate D (MakeTime h0 m0 s ms0)))"
  using assms by (simp add: setSeconds_def Let_def fields_of_MakeDate)

lemma setMilliseconds_fields:
  assumes "LocalTime tz u = MakeDate D (MakeTime h0 m0 s0 ms0)"
    and "0 \<le> h0" "h0 < 24" "0 \<le> m0" "m0 < 60" "0 \<le> s0" "s0 < 60" "0 \<le> ms0" "ms0 < 1000"
  shows "setMilliseconds tz (Some ms) (Some u)
         = TimeClip (UTC tz (MakeDate D (MakeTime h0 m0 s0 ms)))"
  using assms by (simp add: setMilliseconds_def Let_def fields_of_MakeDate)

lemma submitTimestamp_local:
  assumes date: "parseDate (editDate s) = Some (D * msPerDay)"
    and time: "js_split CHR '':'' (editTime s) = hs # ms # rest"
      "Number hs = Some h" "Number ms = Some mi"
    and rng: "0 \<le> h" "h < 24" "0 \<le> mi" "mi < 60"
    and orig: "entry_timestamp e = Some u"
    and D: "\<bar>D\<bar> \<le> 10000000" and tz: "\<bar>tz\<bar> \<le> 1440"
  shows "submitTimestamp tz e s =
           Some (UTC tz (MakeDate (D + tz div 1440)
             (MakeTime h mi (SecFromTime (LocalTime tz u)) (msFromTime (LocalTime tz u)))))"
proof -
  define D' where "D' = D + tz div 1440"
  define m0 where "m0 = tz mod 60"
  define h0 where "h0 = (tz div 60) mod 24"
  define S where "S = SecFromTime (LocalTime tz u)"
  define M where "M = msFromTime (LocalTime tz u)"
  have r: "0 \<le> m0" "m0 < 60" "0 \<le> h0" "h0 < 24" "0 \<le> S" "S < 60" "0 \<le> M" "M < 1000"
    by (simp_all add: m0_def h0_def S_def M_def SecFromTime_def msFromTime_def msPerSecond_def)
  have clip: "TimeClip (UTC tz (MakeDate D' (MakeTime a b c d)))
                = Some (UTC tz (MakeDate D' (MakeTime a b c d)))"
    if "0 \<le> a" "a < 24" "0 \<le> b" "b < 60" "0 \<le> c" "c < 60" "0 \<le> d" "d < 1000"
    for a b c d
    unfolding D'_def using D tz that by (rule local_in_range)
  have mid: "LocalTime tz (D * msPerDay) = MakeDate D' (MakeTime h0 m0 0 0)"
    unfolding D'_def h0_def m0_def by (rule midnight_local)
  have t1: "setHours tz (Some h) (Some (D * msPerDay))
              = Some (UTC tz (MakeDate D' (MakeTime h m0 0 0)))"
    using setHours_fields [where h = h, OF mid] r rng by (simp add: clip)
  have t2: "setMinutes tz (Some mi) (Some (UTC tz (MakeDate D' (MakeTime h m0 0 0))))
              = Some (UTC tz (MakeDate D' (MakeTime h mi 0 0)))"
    using setMinutes_fields
        [where m = mi, OF LocalTime_UTC [of tz "MakeDate D' (MakeTime h m0 0 0)"]] r rng by (simp add: clip)
  have t3: "setSeconds tz (Some S) (Some (UTC tz (MakeDate D' (MakeTime h mi 0 0))))
              = Some (UTC tz (MakeDate D' (MakeTime h mi S 0)))"
    using setSeconds_fields
        [where s = S, OF LocalTime_UTC [of tz "MakeDate D' (MakeTime h mi 0 0)"]] r rng by (simp add: clip)
  have t4: "setMilliseconds tz (Some M) (Some (UTC tz (MakeDate D' (MakeTime h mi S 0))))
              = Some (UTC tz (MakeDate D' (MakeTime h mi S M)))"
    using setMilliseconds_fields
        [where ms = M, OF LocalTime_UTC [of tz "MakeDate D' (MakeTime h mi S 0)"]] r rng
    by (simp add: clip)
  have "submitTimestamp tz e s = Some (UTC tz (MakeDate D' (MakeTime h mi S M)))"
    by (simp add: submitTimestamp_def Let_def date time orig getSeconds_def
        getMilliseconds_def S_def [symmetric] M_def [symmetric] t1 t2 t3 t4)
  then show ?thesis
    by (simp only: D'_def S_def M_def)
qed

text \<open>
  With a date string that parses to day \<open>D\<close> and a time string \<open>HH:MM\<close>, the submitted
  timestamp has the edited hour and minute and the original seconds and milliseconds
  in local time, on local day \<open>D + tz div 1440\<close>: day \<open>D\<close> at or east of Greenwich, the
  day before \<open>D\<close> west of it.
\<close>

lemma submitTimestamp_east:
  assumes "parseDate (editDate s) = Some (D * msPerDay)"
    and "js_split CHR '':'' (editTime s) = hs # ms # rest"
      "Number hs = Some h" "Number ms = Some mi"
    and "0 \<le> h" "h < 24" "0 \<le> mi" "mi < 60"
    and "entry_timestamp e = Some u"
    and "\<bar>D\<bar> \<le> 10000000" and "0 \<le> tz" "tz < 1440"
  shows "submitTimestamp tz e s =
           Some (UTC tz (MakeDate D
             (MakeTime h mi (SecFromTime (LocalTime tz u)) (msFromTime (LocalTime tz u)))))"
proof -
  have "\<bar>tz\<bar> \<le> 1440" and "tz div 1440 = 0"
    using assms(11,12) by simp_all
  then show ?thesis
    using submitTimestamp_local [OF assms(1-10), of tz] by simp
qed

lemma submitTimestamp_west:
  assumes "parseDate (editDate s) = Some (D * msPerDay)"
    and "js_split CHR '':'' (editTime s) = hs # ms # rest"
      "Number hs = Some h" "Number ms = Some mi"
    and "0 \<le> h" "h < 24" "0 \<le> mi" "mi < 60"
    and "entry_timestamp e = Some u"
    and "\<bar>D\<bar> \<le> 10000000" and "- 1440 \<le> tz" "tz < 0"
  shows "submitTimestamp tz e s =
           Some (UTC tz (MakeDate (D - 1)
             (MakeTime h mi (SecFromTime (LocalTime tz u)) (msFromTime (LocalTime tz u)))))"
proof -
  have "\<bar>tz\<bar> \<le> 1440"
    using assms(11,12) by simp
  moreover have "tz div 1440 = - 1"
    using assms(11,12) zdiv_mono1 [of "- 1440" tz 1440] zdiv_mono1 [of tz "- 1" 1440]
    by simp
  ultimately show ?thesis
    using submitTimestamp_local [OF assms(1-10), of tz] by simp
qed

text \<open>
  Claim C1, at the input of the form's own test, run five hours west of Greenwich
  (\<open>tz = -300\<close>). The entry was logged at 10:30:25.500 local time on 15 January 2023;
  the form shows the date 2023-01-15 and the time 10:30; the user sets the date to
  2023-01-17 and the time to 11:45 and submits. The payload's timestamp is
  11:45:25.500 local time on 16 January, not on 17 January as the claim and the test
  expect: the date string is read as midnight UTC, which is still the evening of the
  16th in local time, and the hours and minutes are then set in local time.
\<close>

theorem edit_timestamp_west_of_Greenwich:
  "entry_timestamp (editThisOne (-300)) = Some 1673796625500
   \<and> useEffect (-300) (Some (editThisOne (-300))) initialState
       = Inr (initialState\<lparr>entryType := Meal, mealNotes := ''Initial notes'',
                           editDate := ''2023-01-15'', editTime := ''10:30'',
                           st_foodType := ''Old Food''\<rparr>)
   \<and> timestamp (fst (handleSubmit (-300) (Some (editThisOne (-300)))
        (run (initialState\<lparr>entryType := Meal, mealNotes := ''Initial notes'',
                            editDate := ''2023-01-15'', editTime := ''10:30'',
                            st_foodType := ''Old Food''\<rparr>)
             [SetEditDate ''2023-01-17'', SetEditTime ''11:45''])))
       = Some (localDate (-300) 2023 1 16 11 45 25 500)
   \<and> localDate (-300) 2023 1 16 11 45 25 500 = Some 1673887525500
   \<and> localDate (-300) 2023 1 17 11 45 25 500 = Some 1673973925500"
  by code_simp

section \<open>Reading back the date and time the form shows\<close>


















section \<open>Loading an entry and submitting it\<close>

text \<open>The effect fails exactly on an entry whose timestamp is an Invalid Date.\<close>

lemma useEffect_edit_succeeds:
  "entry_timestamp e = Some t \<Longrightarrow> \<exists>s. useEffect tz (Some e) s0 = Inr s"
  by (simp add: useEffect_def Let_def formatDateForInput_def toISOString_def
      split: prod.splits)

lemma useEffect_edit_fails:
  "entry_timestamp e = None \<Longrightarrow> useEffect tz (Some e) s0 = Inl RangeError"
  by (simp add: useEffect_def Let_def formatDateForInput_def toISOString_def)











end
